theory Spec2Isabelle
  imports Complex_Main
begin

section \<open>National Grid Live: the refresh pipeline\<close>

text \<open>
  A shallow embedding of the data pipeline of the dashboard: the scheduler utility
  \<^verbatim>\<open>getNextFiveMinuteMark\<close>, the API route handlers (demand, emissions, pricing), the
  page's \<^verbatim>\<open>fetchData\<close> cycle and the category sums of \<^verbatim>\<open>GenerationPieChart\<close> and
  of the page's three \<^verbatim>\<open>FuelList\<close>s.

  Conventions of the model.
  \<^item> A JavaScript number is a \<open>jsnum\<close>: \<open>NaN\<close>, the two infinities, or a finite value.
    Finite IEEE doubles are idealised as exact rationals: rounding to the nearest double,
    overflow and the sign of zero are not modelled.
  \<^item> \<^verbatim>\<open>undefined\<close> is \<open>None\<close> of an option type; a thrown exception is a branch of the
    model (\<open>Inl\<close>, or a constructor of its own).
  \<^item> The clock, the network and the third-party parsers are inputs of the functions.
\<close>

subsection \<open>Dates (ECMA-262 time values, in milliseconds)\<close>
















subsection \<open>utils/getNextFiveMinuteMark.ts\<close>



subsection \<open>JavaScript numbers\<close>

text \<open>
  \<open>truthy\<close> is ToBoolean on numbers (\<open>0\<close> and \<open>NaN\<close> are falsy), \<open>js_add\<close>, \<open>js_sub\<close>
  and \<open>js_div\<close> are \<^verbatim>\<open>+\<close>, \<^verbatim>\<open>-\<close> and \<^verbatim>\<open>/\<close> on numbers (every zero is \<open>+0\<close>), and
  \<open>js_or x y\<close> is \<^verbatim>\<open>x || y\<close> on numbers.
\<close>

datatype jsnum = NaN | PInf | NInf | Fin rat

fun truthy :: "jsnum \<Rightarrow> bool" where
  "truthy NaN = False"
| "truthy PInf = True"
| "truthy NInf = True"
| "truthy (Fin x) = (x \<noteq> 0)"

fun js_neg :: "jsnum \<Rightarrow> jsnum" where
  "js_neg NaN = NaN"
| "js_neg PInf = NInf"
| "js_neg NInf = PInf"
| "js_neg (Fin x) = Fin (- x)"

fun js_add :: "jsnum \<Rightarrow> jsnum \<Rightarrow> jsnum" where
  "js_add NaN y = NaN"
| "js_add x NaN = NaN"
| "js_add PInf NInf = NaN"
| "js_add NInf PInf = NaN"
| "js_add PInf y = PInf"
| "js_add x PInf = PInf"
| "js_add NInf y = NInf"
| "js_add x NInf = NInf"
| "js_add (Fin x) (Fin y) = Fin (x + y)"

definition js_sub :: "jsnum \<Rightarrow> jsnum \<Rightarrow> jsnum" where
  "js_sub x y = js_add x (js_neg y)"

fun js_div :: "jsnum \<Rightarrow> jsnum \<Rightarrow> jsnum" where
  "js_div NaN y = NaN"
| "js_div x NaN = NaN"
| "js_div (Fin x) (Fin y) =
     (if y \<noteq> 0 then Fin (x / y)
      else if x = 0 then NaN else if 0 < x then PInf else NInf)"
| "js_div (Fin x) y = Fin 0"
| "js_div PInf (Fin y) = (if 0 \<le> y then PInf else NInf)"
| "js_div NInf (Fin y) = (if 0 \<le> y then NInf else PInf)"
| "js_div x y = NaN"

definition js_or :: "jsnum \<Rightarrow> jsnum \<Rightarrow> jsnum" where
  "js_or x y = (if truthy x then x else y)"

subsection \<open>parseFloat\<close>

text \<open>
  \<^verbatim>\<open>parseFloat\<close> of a string (ECMA-262): leading white space is dropped (here the ASCII
  white space and line terminators), and the longest prefix that is a \<open>StrDecimalLiteral\<close>
  is read: an optional sign, then \<^verbatim>\<open>Infinity\<close> or decimal digits with an optional fraction
  and an optional exponent. No such prefix gives \<open>NaN\<close>. An exponent marker that no digit
  follows is not part of the literal, which \<open>exponent_part\<close> reads as exponent \<open>0\<close>.
\<close>

definition is_digit :: "char \<Rightarrow> bool" where
  "is_digit c = (48 \<le> (of_char c :: nat) \<and> (of_char c :: nat) \<le> 57)"

definition is_white_space :: "char \<Rightarrow> bool" where
  "is_white_space c = ((of_char c :: nat) \<in> {9, 10, 11, 12, 13, 32})"

definition digit_value :: "char \<Rightarrow> nat" where
  "digit_value c = of_char c - 48"

definition digits_value :: "string \<Rightarrow> nat" where
  "digits_value ds = foldl (\<lambda>a c. 10 * a + digit_value c) 0 ds"

definition exponent_part :: "string \<Rightarrow> int" where
  "exponent_part s =
     (case s of
        [] \<Rightarrow> 0
      | c # r \<Rightarrow>
          if c = CHR ''e'' \<or> c = CHR ''E'' then
            (case r of
               [] \<Rightarrow> 0
             | d # r' \<Rightarrow>
                 if d = CHR ''+'' then int (digits_value (takeWhile is_digit r'))
                 else if d = CHR ''-'' then - int (digits_value (takeWhile is_digit r'))
                 else int (digits_value (takeWhile is_digit r)))
          else 0)"

definition pow10 :: "int \<Rightarrow> rat" where
  "pow10 e = (if 0 \<le> e then 10 ^ nat e else 1 / 10 ^ nat (- e))"

definition StrUnsignedDecimalLiteral :: "string \<Rightarrow> jsnum" where
  "StrUnsignedDecimalLiteral s =
     (if take 8 s = ''Infinity'' then PInf
      else
        let ip = takeWhile is_digit s;
            r1 = dropWhile is_digit s;
            fp = (case r1 of [] \<Rightarrow> [] | c # r \<Rightarrow> if c = CHR ''.'' then takeWhile is_digit r else []);
            r2 = (case r1 of [] \<Rightarrow> [] | c # r \<Rightarrow> if c = CHR ''.'' then dropWhile is_digit r else r1)
        in if ip = [] \<and> fp = [] then NaN
           else Fin (of_nat (digits_value (ip @ fp)) / 10 ^ length fp * pow10 (exponent_part r2)))"

definition parseFloat_string :: "string \<Rightarrow> jsnum" where
  "parseFloat_string s =
     (case dropWhile is_white_space s of
        [] \<Rightarrow> NaN
      | c # r \<Rightarrow>
          if c = CHR ''-'' then js_neg (StrUnsignedDecimalLiteral r)
          else if c = CHR ''+'' then StrUnsignedDecimalLiteral r
          else StrUnsignedDecimalLiteral (c # r))"

subsection \<open>toFixed(2)\<close>

text \<open>
  \<^verbatim>\<open>Number.prototype.toFixed(2)\<close> (ECMA-262): \<open>n\<close> is the integer for which \<open>n / 100\<close> is
  closest to the magnitude (the larger one on a tie), written in decimal with at least three
  digits and a point before the last two. At magnitudes of \<open>10\<^sup>2\<^sup>1\<close> and more JavaScript
  switches to exponent notation, which this model does not follow: it keeps the decimal
  notation there.
\<close>

definition digit_char :: "nat \<Rightarrow> char" where
  "digit_char d = ''0123456789'' ! d"

fun decimal_digits :: "nat \<Rightarrow> string" where
  "decimal_digits n =
     (if n < 10 then [digit_char n] else decimal_digits (n div 10) @ [digit_char (n mod 10)])"

declare decimal_digits.simps [simp del]

definition toFixed2 :: "jsnum \<Rightarrow> string" where
  "toFixed2 v =
     (case v of
        NaN \<Rightarrow> ''NaN''
      | PInf \<Rightarrow> ''Infinity''
      | NInf \<Rightarrow> ''-Infinity''
      | Fin x \<Rightarrow>
          let s = (if x < 0 then ''-'' else '''');
              n = nat \<lfloor>\<bar>x\<bar> * 100 + 1 / 2\<rfloor>;
              m = decimal_digits n;
              m' = (if length m \<le> 2 then replicate (3 - length m) (CHR ''0'') @ m else m);
              k = length m'
          in s @ take (k - 2) m' @ ''.'' @ drop (k - 2) m')"

subsection \<open>JSON values\<close>

text \<open>
  The value a JSON body parses to; an object is an association list with distinct keys.
  \<open>json_truthy\<close> is ToBoolean. \<open>get_prop k v\<close> is the
  property read \<^verbatim>\<open>v.k\<close> of a value that is neither \<^verbatim>\<open>null\<close> nor \<^verbatim>\<open>undefined\<close>, for
  the property names this program reads (\<^verbatim>\<open>data\<close>, \<^verbatim>\<open>ND\<close>, the flow columns, \<^verbatim>\<open>price\<close>,
  \<^verbatim>\<open>intensity\<close>, \<^verbatim>\<open>forecast\<close>): only an object can have them. \<open>get_index0 v\<close> is \<^verbatim>\<open>v[0]\<close>.
  \<open>opt_prop\<close> and \<open>opt_index0\<close> are the optional chains \<^verbatim>\<open>v?.k\<close> and \<^verbatim>\<open>v?.[0]\<close>, and
  \<open>or_else v d\<close> is \<^verbatim>\<open>v || d\<close>.

  \<open>parseFloat\<close> first converts its argument to a string: \<^verbatim>\<open>undefined\<close>, \<^verbatim>\<open>null\<close>, booleans and
  objects give strings that hold no number; a number gives back itself; an array gives its
  elements joined by commas, so that its first element decides.
\<close>

datatype json =
    JNull
  | JBool bool
  | JNum rat
  | JStr string
  | JArr "json list"
  | JObj "(string \<times> json) list"

fun json_truthy :: "json \<Rightarrow> bool" where
  "json_truthy JNull = False"
| "json_truthy (JBool b) = b"
| "json_truthy (JNum n) = (n \<noteq> 0)"
| "json_truthy (JStr s) = (s \<noteq> [])"
| "json_truthy (JArr xs) = True"
| "json_truthy (JObj kvs) = True"

fun get_prop :: "string \<Rightarrow> json \<Rightarrow> json option" where
  "get_prop k (JObj kvs) = map_of kvs k"
| "get_prop k v = None"

fun get_index0 :: "json \<Rightarrow> json option" where
  "get_index0 (JArr xs) = (case xs of [] \<Rightarrow> None | x # _ \<Rightarrow> Some x)"
| "get_index0 (JStr s) = (case s of [] \<Rightarrow> None | c # _ \<Rightarrow> Some (JStr [c]))"
| "get_index0 (JObj kvs) = map_of kvs ''0''"
| "get_index0 v = None"

definition opt_prop :: "string \<Rightarrow> json option \<Rightarrow> json option" where
  "opt_prop k v = (case v of None \<Rightarrow> None | Some JNull \<Rightarrow> None | Some x \<Rightarrow> get_prop k x)"

definition opt_index0 :: "json option \<Rightarrow> json option" where
  "opt_index0 v = (case v of None \<Rightarrow> None | Some JNull \<Rightarrow> None | Some x \<Rightarrow> get_index0 x)"

definition or_else :: "json option \<Rightarrow> json \<Rightarrow> json" where
  "or_else v d = (case v of None \<Rightarrow> d | Some x \<Rightarrow> if json_truthy x then x else d)"

fun parseFloat_json :: "json \<Rightarrow> jsnum" where
  "parseFloat_json JNull = NaN"
| "parseFloat_json (JBool b) = NaN"
| "parseFloat_json (JNum n) = Fin n"
| "parseFloat_json (JStr s) = parseFloat_string s"
| "parseFloat_json (JArr []) = NaN"
| "parseFloat_json (JArr (x # xs)) = parseFloat_json x"
| "parseFloat_json (JObj kvs) = NaN"

definition parseFloat :: "json option \<Rightarrow> jsnum" where
  "parseFloat v = (case v of None \<Rightarrow> NaN | Some x \<Rightarrow> parseFloat_json x)"

subsection \<open>The API route handlers: pages/api/demand.ts, emissions.ts, pricing.ts\<close>

text \<open>
  The inputs of a handler are the outcome of the rate limiter and the outcome of the
  upstream request: \<^verbatim>\<open>fetch\<close> or the body read throws, the parser (\<^verbatim>\<open>response.json()\<close>,
  \<^verbatim>\<open>csv-parse\<close>) throws, or the body is parsed. The rate limiter calls back with no error
  (\<open>Admitted\<close>), calls back with an error (\<open>LimiterError\<close>), or answers 429 itself and never
  calls back (\<open>LimitExceeded\<close>). A handler answers (\<open>Responded\<close>) or lets an exception
  escape (\<open>Uncaught\<close>).

  \<open>emissions_try\<close>, \<open>pricing_try\<close> and \<open>demand_try\<close> are the bodies of the \<^verbatim>\<open>try\<close> blocks:
  \<open>Inl\<close> is the message of the exception thrown there, \<open>Inr\<close> the value handed to
  \<^verbatim>\<open>res.status(200).json\<close>. In the pricing handler the rate limiter runs inside the
  \<^verbatim>\<open>try\<close> block, in the other two before it. \<^verbatim>\<open>JSON.stringify\<close> drops a member whose value
  is \<^verbatim>\<open>undefined\<close>, so the demand handler answers \<^verbatim>\<open>{}\<close> when the CSV has no record.
\<close>

record response =
  status :: nat
  body :: json

datatype limiter_outcome = Admitted | LimiterError string | LimitExceeded

datatype 'a upstream = FetchThrows string | ParseThrows string | Parsed 'a

datatype outcome = Responded response | Uncaught string

definition limiter_response :: response where
  "limiter_response =
     \<lparr>status = 429, body = JStr ''Too many requests from this IP, please try again later.''\<rparr>"

definition server_error :: "string \<Rightarrow> response" where
  "server_error message = \<lparr>status = 500, body = JObj [(''error'', JStr message)]\<rparr>"

definition emissions_try :: "json upstream \<Rightarrow> string + json" where
  "emissions_try up =
     (case up of
        FetchThrows e \<Rightarrow> Inl e
      | ParseThrows e \<Rightarrow> Inl e
      | Parsed d \<Rightarrow>
          (case d of
             JNull \<Rightarrow> Inl ''TypeError''
           | _ \<Rightarrow>
               (case get_prop ''data'' d of
                  None \<Rightarrow> Inl ''Missing emissions data''
                | Some x \<Rightarrow> if \<not> json_truthy x then Inl ''Missing emissions data'' else Inr x)))"

definition handler_emissions :: "limiter_outcome \<Rightarrow> json upstream \<Rightarrow> outcome" where
  "handler_emissions admission up =
     (case admission of
        LimiterError e \<Rightarrow> Uncaught e
      | LimitExceeded \<Rightarrow> Responded limiter_response
      | Admitted \<Rightarrow>
          (case emissions_try up of
             Inr x \<Rightarrow> Responded \<lparr>status = 200, body = x\<rparr>
           | Inl error \<Rightarrow> Responded (server_error ''Failed to fetch emissions data'')))"

definition pricing_try :: "json upstream \<Rightarrow> string + json" where
  "pricing_try up =
     (case up of
        FetchThrows e \<Rightarrow> Inl e
      | ParseThrows e \<Rightarrow> Inl e
      | Parsed d \<Rightarrow>
          (case d of
             JNull \<Rightarrow> Inl ''TypeError''
           | _ \<Rightarrow>
               (case get_prop ''data'' d of
                  None \<Rightarrow> Inl ''Missing pricing data''
                | Some x \<Rightarrow> if \<not> json_truthy x then Inl ''Missing pricing data'' else Inr x)))"

definition handler_pricing :: "limiter_outcome \<Rightarrow> json upstream \<Rightarrow> outcome" where
  "handler_pricing admission up =
     (case admission of
        LimiterError e \<Rightarrow> Responded (server_error ''Failed to fetch pricing data'')
      | LimitExceeded \<Rightarrow> Responded limiter_response
      | Admitted \<Rightarrow>
          (case pricing_try up of
             Inr x \<Rightarrow> Responded \<lparr>status = 200, body = x\<rparr>
           | Inl error \<Rightarrow> Responded (server_error ''Failed to fetch pricing data'')))"

type_synonym csv_record = "(string \<times> string) list"

definition record_json :: "csv_record \<Rightarrow> json" where
  "record_json r = JObj (map (\<lambda>(k, v). (k, JStr v)) r)"



subsection \<open>The page: fetchData\<close>

text \<open>
  The page keeps two pieces of state, \<^verbatim>\<open>generationMix\<close> and \<^verbatim>\<open>gridInfo\<close> (initially
  \<^verbatim>\<open>null\<close>). \<^verbatim>\<open>fetchData\<close> awaits four \<^verbatim>\<open>axios.get\<close> calls in turn inside one
  \<^verbatim>\<open>try\<close> block; a call that rejects (a network failure or a status outside 2xx) is \<open>Inl\<close>
  of its message, one that resolves is \<open>Inr\<close> of the parsed body. The mix is typed by the
  page (\<^verbatim>\<open>GenerationMixItem[]\<close>); the other three bodies are untyped. The fields
  \<^verbatim>\<open>generation\<close> and \<^verbatim>\<open>time\<close> of a mix item are \<open>mix_generation\<close> and \<open>mix_time\<close> here,
  since \<^verbatim>\<open>GridInfo\<close> has fields of the same names.

  \<open>demand_of\<close> and \<open>transfers_of\<close> are the local constants \<^verbatim>\<open>demand\<close> and \<^verbatim>\<open>transfers\<close>,
  \<open>gridInfo_of\<close> is the object handed to \<^verbatim>\<open>setGridInfo\<close>, and \<open>clock\<close> is
  \<^verbatim>\<open>new Date().toLocaleTimeString()\<close>. Reading a property of \<^verbatim>\<open>null\<close> or \<^verbatim>\<open>undefined\<close>
  throws, which the \<^verbatim>\<open>catch\<close> block absorbs like a failed request.
\<close>

record FuelSource =
  fuel :: string
  carbonIntensityPercentage :: "rat option"

record GenerationMixItem = FuelSource +
  mix_generation :: string
  mix_time :: string

record GridInfo =
  time :: string
  price :: json
  emissions :: json
  demand :: string
  generation :: string
  transfers :: string

record home_state =
  generationMix :: "GenerationMixItem list"
  gridInfo :: "GridInfo option"

definition flow_columns :: "string list" where
  "flow_columns = [''BRITNED_FLOW'', ''IFA_FLOW'', ''NEMO_FLOW'', ''ELECLINK_FLOW'',
                   ''MOYLE_FLOW'', ''NSL_FLOW'', ''VIKING_FLOW'']"

definition demand_of :: "json \<Rightarrow> jsnum" where
  "demand_of latestDemandData = js_or (parseFloat (get_prop ''ND'' latestDemandData)) (Fin 0)"

definition transfers_of :: "json \<Rightarrow> jsnum" where
  "transfers_of latestDemandData =
     foldl (\<lambda>acc flow. js_add acc flow) (Fin 0)
       (map (\<lambda>flow. js_or (parseFloat flow) (Fin 0))
          (map (\<lambda>c. get_prop c latestDemandData) flow_columns))"

definition gridInfo_of :: "string \<Rightarrow> json \<Rightarrow> json \<Rightarrow> json \<Rightarrow> GridInfo" where
  "gridInfo_of clock emissionsData pricingData latestDemandData =
     (let demand = demand_of latestDemandData;
          transfers = transfers_of latestDemandData
      in \<lparr>time = clock,
          price = or_else (opt_prop ''price'' (opt_index0 (Some pricingData))) (JStr ''N/A''),
          emissions =
            or_else (opt_prop ''forecast'' (opt_prop ''intensity'' (opt_index0 (Some emissionsData))))
              (JStr ''N/A''),
          demand = (if truthy demand then toFixed2 (js_div demand (Fin 1000)) else ''N/A''),
          generation = toFixed2 (js_sub (js_div demand (Fin 1000)) (js_div transfers (Fin 1000))),
          transfers = (if truthy transfers then toFixed2 (js_div transfers (Fin 1000)) else ''N/A'')\<rparr>)"

definition fetchData ::
  "string \<Rightarrow> string + GenerationMixItem list \<Rightarrow> string + json \<Rightarrow> string + json \<Rightarrow> string + json
     \<Rightarrow> home_state \<Rightarrow> home_state" where
  "fetchData clock mixResponse emissionsResponse pricingResponse demandResponse s =
     (case mixResponse of
        Inl err \<Rightarrow> s
      | Inr mix \<Rightarrow>
          let s1 = s\<lparr>generationMix := mix\<rparr> in
          (case emissionsResponse of
             Inl err \<Rightarrow> s1
           | Inr emissionsData \<Rightarrow>
               (case pricingResponse of
                  Inl err \<Rightarrow> s1
                | Inr pricingData \<Rightarrow>
                    (case demandResponse of
                       Inl err \<Rightarrow> s1
                     | Inr demandData \<Rightarrow>
                         (case demandData of
                            JNull \<Rightarrow> s1
                          | _ \<Rightarrow>
                              (case get_prop ''data'' demandData of
                                 None \<Rightarrow> s1
                               | Some JNull \<Rightarrow> s1
                               | Some latestDemandData \<Rightarrow>
                                   s1\<lparr>gridInfo :=
                                     Some (gridInfo_of clock emissionsData pricingData
                                             latestDemandData)\<rparr>))))))"

text \<open>Two values of \<^verbatim>\<open>gridInfo\<close> that agree in every field but \<open>time\<close>.\<close>

definition same_but_time :: "GridInfo option \<Rightarrow> GridInfo option \<Rightarrow> bool" where
  "same_but_time a b =
     (case (a, b) of
        (None, None) \<Rightarrow> True
      | (Some x, Some y) \<Rightarrow>
          price x = price y \<and> emissions x = emissions y \<and> demand x = demand y
          \<and> generation x = generation y \<and> transfers x = transfers y
      | _ \<Rightarrow> False)"

subsection \<open>components/GenerationPieChart.tsx\<close>

text \<open>
  \<open>pie_value\<close> is \<^verbatim>\<open>parseFloat(fuel.carbonIntensityPercentage?.toString() || "0")\<close>: the
  string of a number is never empty and parses back to the number.
\<close>

definition pie_value :: "'a FuelSource_scheme \<Rightarrow> jsnum" where
  "pie_value f =
     (case carbonIntensityPercentage f of
        None \<Rightarrow> parseFloat_string ''0''
      | Some n \<Rightarrow> Fin n)"


definition renewables :: "'a FuelSource_scheme list \<Rightarrow> jsnum" where
  "renewables mix =
     foldl (\<lambda>acc f. js_add acc (pie_value f)) (Fin 0)
       (filter (\<lambda>f. fuel f \<in> set [''wind'', ''solar'', ''hydro'']) mix)"

definition fossilFuels :: "'a FuelSource_scheme list \<Rightarrow> jsnum" where
  "fossilFuels mix =
     foldl (\<lambda>acc f. js_add acc (pie_value f)) (Fin 0)
       (filter (\<lambda>f. fuel f \<in> set [''coal'', ''gas'', ''oil'']) mix)"

definition others :: "'a FuelSource_scheme list \<Rightarrow> jsnum" where
  "others mix =
     foldl (\<lambda>acc f. js_add acc (pie_value f)) (Fin 0)
       (filter (\<lambda>f. fuel f \<notin> set [''wind'', ''solar'', ''hydro'', ''coal'', ''gas'', ''oil''])
          mix)"

definition aggregateData :: "'a FuelSource_scheme list \<Rightarrow> jsnum list" where
  "aggregateData mix =
     [renewables mix, fossilFuels mix, others mix]"

subsection \<open>components/FuelList.tsx and its three uses on the page\<close>

text \<open>
  \<open>toLowerCase\<close> maps the ASCII capital letters. \<open>list_value\<close> is
  \<^verbatim>\<open>source.carbonIntensityPercentage || 0\<close>. \<open>FuelList_items\<close> are the rows a list shows and
  \<open>FuelList_total\<close> is the total in its heading.
\<close>

definition toLowerCase_char :: "char \<Rightarrow> char" where
  "toLowerCase_char c =
     (case map_of (zip ''ABCDEFGHIJKLMNOPQRSTUVWXYZ'' ''abcdefghijklmnopqrstuvwxyz'') c of
        None \<Rightarrow> c
      | Some l \<Rightarrow> l)"

definition toLowerCase :: "string \<Rightarrow> string" where
  "toLowerCase s = map toLowerCase_char s"

definition list_value :: "'a FuelSource_scheme \<Rightarrow> jsnum" where
  "list_value source =
     (case carbonIntensityPercentage source of
        None \<Rightarrow> Fin 0
      | Some n \<Rightarrow> js_or (Fin n) (Fin 0))"

definition FuelList_items :: "string list \<Rightarrow> 'a FuelSource_scheme list \<Rightarrow> 'a FuelSource_scheme list" where
  "FuelList_items fuelTypes mix =
     filter (\<lambda>source. toLowerCase (fuel source) \<in> set fuelTypes) mix"

definition FuelList_total :: "string list \<Rightarrow> 'a FuelSource_scheme list \<Rightarrow> string" where
  "FuelList_total fuelTypes mix =
     toFixed2
       (foldl (\<lambda>sum source. js_add sum (list_value source)) (Fin 0)
          (filter (\<lambda>source. toLowerCase (fuel source) \<in> set fuelTypes) mix))"

definition Home_fossil_fuels :: "'a FuelSource_scheme list \<Rightarrow> string" where
  "Home_fossil_fuels mix = FuelList_total [''coal'', ''gas''] mix"

definition Home_renewables :: "'a FuelSource_scheme list \<Rightarrow> string" where
  "Home_renewables mix = FuelList_total [''wind'', ''solar'', ''hydro''] mix"

definition Home_other_sources :: "'a FuelSource_scheme list \<Rightarrow> string" where
  "Home_other_sources mix =
     FuelList_total [''nuclear'', ''biomass'', ''imports'', ''other''] mix"

subsection \<open>The category grouping in the specification's words\<close>

text \<open>
  Wind, solar and hydro are Renewables; coal, gas and oil are Fossil Fuels; everything else
  is Other Sources. \<open>share\<close> is the percentage of an entry (\<open>0\<close> when it has none) and
  \<open>category_sum\<close> the sum of the shares of a category.
\<close>

datatype category = Renewables | FossilFuels | OtherSources

definition spec_category :: "string \<Rightarrow> category" where
  "spec_category f =
     (if f \<in> {''wind'', ''solar'', ''hydro''} then Renewables
      else if f \<in> {''coal'', ''gas'', ''oil''} then FossilFuels
      else OtherSources)"

definition share :: "'a FuelSource_scheme \<Rightarrow> rat" where
  "share f = (case carbonIntensityPercentage f of None \<Rightarrow> 0 | Some n \<Rightarrow> n)"

definition category_sum :: "category \<Rightarrow> 'a FuelSource_scheme list \<Rightarrow> rat" where
  "category_sum c mix =
     sum_list (map (\<lambda>f. if spec_category (fuel f) = c then share f else 0) mix)"

text \<open>The nine fuels that the three lists of the page name.\<close>

definition nine_fuels :: "string list" where
  "nine_fuels = [''coal'', ''gas'', ''wind'', ''solar'', ''hydro'',
                 ''nuclear'', ''biomass'', ''imports'', ''other'']"


text \<open>The inputs of the specification's two scenarios.\<close>

definition scenario_mix :: "FuelSource list" where
  "scenario_mix =
     [\<lparr>fuel = ''wind'', carbonIntensityPercentage = Some 20\<rparr>,
      \<lparr>fuel = ''gas'', carbonIntensityPercentage = Some 30\<rparr>,
      \<lparr>fuel = ''nuclear'', carbonIntensityPercentage = Some 15\<rparr>,
      \<lparr>fuel = ''coal'', carbonIntensityPercentage = Some 5\<rparr>,
      \<lparr>fuel = ''solar'', carbonIntensityPercentage = Some 10\<rparr>,
      \<lparr>fuel = ''hydro'', carbonIntensityPercentage = Some 5\<rparr>,
      \<lparr>fuel = ''biomass'', carbonIntensityPercentage = Some 5\<rparr>,
      \<lparr>fuel = ''other'', carbonIntensityPercentage = Some 10\<rparr>]"

definition scenario_record :: csv_record where
  "scenario_record =
     [(''ND'', ''32000''), (''BRITNED_FLOW'', ''1000''), (''IFA_FLOW'', ''700''),
      (''NEMO_FLOW'', ''-200''), (''ELECLINK_FLOW'', ''0''), (''MOYLE_FLOW'', ''0''),
      (''NSL_FLOW'', ''0''), (''VIKING_FLOW'', ''0'')]"


section \<open>Properties\<close>

subsection \<open>The scheduler utility\<close>




















subsection \<open>Evaluating the number functions on numerals\<close>

lemma floor_numeral_div: "\<lfloor>(numeral a :: rat) / numeral b\<rfloor> = numeral a div numeral b"
  using floor_divide_of_int_eq [of "numeral a" "numeral b", where ?'a = rat] by simp

lemma decimal_digits_small: "n < 10 \<Longrightarrow> decimal_digits n = [digit_char n]"
  by (simp add: decimal_digits.simps)

lemma decimal_digits_large:
  "10 \<le> n \<Longrightarrow> decimal_digits n = decimal_digits (n div 10) @ [digit_char (n mod 10)]"
  by (subst decimal_digits.simps) simp

lemmas parse_defs = parseFloat_string_def StrUnsignedDecimalLiteral_def is_white_space_def
  is_digit_def digits_value_def digit_value_def exponent_part_def pow10_def

lemmas fixed_defs = toFixed2_def digit_char_def decimal_digits_small decimal_digits_large
  Let_def floor_numeral_div

subsection \<open>The API route handlers\<close>

lemma emissions_try_missing:
  "d = JNull \<or> get_prop ''data'' d = None \<or> (\<exists>x. get_prop ''data'' d = Some x \<and> \<not> json_truthy x)
   \<Longrightarrow> \<exists>e. emissions_try (Parsed d) = Inl e"
  by (cases d) (auto simp add: emissions_try_def)

lemma pricing_try_missing:
  "d = JNull \<or> get_prop ''data'' d = None \<or> (\<exists>x. get_prop ''data'' d = Some x \<and> \<not> json_truthy x)
   \<Longrightarrow> \<exists>e. pricing_try (Parsed d) = Inl e"
  by (cases d) (auto simp add: pricing_try_def)

lemma emissions_try_present:
  "get_prop ''data'' d = Some x \<Longrightarrow> json_truthy x \<Longrightarrow> emissions_try (Parsed d) = Inr x"
  by (cases d) (auto simp add: emissions_try_def)

lemma pricing_try_present:
  "get_prop ''data'' d = Some x \<Longrightarrow> json_truthy x \<Longrightarrow> pricing_try (Parsed d) = Inr x"
  by (cases d) (auto simp add: pricing_try_def)

text \<open>
  Claim C7, as stated, fails: the pricing handler answers 200 with the empty array when the
  upstream body is \<^verbatim>\<open>{"data": []}\<close>, since an empty array is truthy.
\<close>

theorem envelope_validation_counterexample:
  "handler_pricing Admitted (Parsed (JObj [(''data'', JArr [])]))
     = Responded \<lparr>status = 200, body = JArr []\<rparr>"
  by (simp add: handler_pricing_def pricing_try_def)

text \<open>
  Claim C7, amended. Each of the two handlers checks that \<open>data\<close> is there and truthy,
  not that it is non-empty: a body that is \<^verbatim>\<open>null\<close>, has no \<open>data\<close>, or whose \<open>data\<close> is
  \<^verbatim>\<open>null\<close>, \<^verbatim>\<open>false\<close>, \<open>0\<close> or the empty string is answered with status 500 and the
  handler's fixed \<^verbatim>\<open>{error: ...}\<close> body; a non-empty array is answered with status 200 and
  that array; and the pricing handler answers an empty array with status 200 and \<^verbatim>\<open>[]\<close>.
\<close>

theorem envelope_presence_check:
  "(d = JNull \<or> get_prop ''data'' d = None
      \<or> (\<exists>x. get_prop ''data'' d = Some x \<and> x \<in> {JNull, JBool False, JNum 0, JStr ''''})
    \<longrightarrow> handler_emissions Admitted (Parsed d)
          = Responded \<lparr>status = 500, body = JObj [(''error'', JStr ''Failed to fetch emissions data'')]\<rparr>
        \<and> handler_pricing Admitted (Parsed d)
          = Responded \<lparr>status = 500, body = JObj [(''error'', JStr ''Failed to fetch pricing data'')]\<rparr>)
   \<and> (get_prop ''data'' d = Some (JArr (x # xs))
    \<longrightarrow> handler_emissions Admitted (Parsed d) = Responded \<lparr>status = 200, body = JArr (x # xs)\<rparr>
        \<and> handler_pricing Admitted (Parsed d) = Responded \<lparr>status = 200, body = JArr (x # xs)\<rparr>)
   \<and> (get_prop ''data'' d = Some (JArr [])
    \<longrightarrow> handler_pricing Admitted (Parsed d) = Responded \<lparr>status = 200, body = JArr []\<rparr>)"
proof -
  have missing: "handler_emissions Admitted (Parsed d)
          = Responded \<lparr>status = 500, body = JObj [(''error'', JStr ''Failed to fetch emissions data'')]\<rparr>
        \<and> handler_pricing Admitted (Parsed d)
          = Responded \<lparr>status = 500, body = JObj [(''error'', JStr ''Failed to fetch pricing data'')]\<rparr>"
    if "d = JNull \<or> get_prop ''data'' d = None
      \<or> (\<exists>x. get_prop ''data'' d = Some x \<and> x \<in> {JNull, JBool False, JNum 0, JStr ''''})"
  proof -
    from that have "d = JNull \<or> get_prop ''data'' d = None
        \<or> (\<exists>x. get_prop ''data'' d = Some x \<and> \<not> json_truthy x)"
      by auto
    then obtain e e' where "emissions_try (Parsed d) = Inl e" "pricing_try (Parsed d) = Inl e'"
      using emissions_try_missing [of d] pricing_try_missing [of d] by blast
    then show ?thesis
      by (simp add: handler_emissions_def handler_pricing_def server_error_def)
  qed
  have present: "handler_emissions Admitted (Parsed d) = Responded \<lparr>status = 200, body = y\<rparr>
        \<and> handler_pricing Admitted (Parsed d) = Responded \<lparr>status = 200, body = y\<rparr>"
    if "get_prop ''data'' d = Some y" "json_truthy y" for y
    using that emissions_try_present [of d y] pricing_try_present [of d y]
    by (simp add: handler_emissions_def handler_pricing_def)
  show ?thesis
    using missing present [of "JArr (x # xs)"] present [of "JArr []"] by simp
qed

theorem envelope_presence_check_witness:
  "get_prop ''data'' (JObj [(''status'', JNum 400)]) = None
   \<and> handler_emissions Admitted (Parsed (JObj [(''status'', JNum 400)]))
        = Responded \<lparr>status = 500, body = JObj [(''error'', JStr ''Failed to fetch emissions data'')]\<rparr>
   \<and> handler_pricing Admitted (Parsed (JObj [(''status'', JNum 400)]))
        = Responded \<lparr>status = 500, body = JObj [(''error'', JStr ''Failed to fetch pricing data'')]\<rparr>
   \<and> get_prop ''data'' (JObj [(''data'', JArr [JObj [(''price'', JNum 50)]])])
        = Some (JArr [JObj [(''price'', JNum 50)]])
   \<and> handler_emissions Admitted (Parsed (JObj [(''data'', JArr [JObj [(''price'', JNum 50)]])]))
        = Responded \<lparr>status = 200, body = JArr [JObj [(''price'', JNum 50)]]\<rparr>
   \<and> handler_pricing Admitted (Parsed (JObj [(''data'', JArr [JObj [(''price'', JNum 50)]])]))
        = Responded \<lparr>status = 200, body = JArr [JObj [(''price'', JNum 50)]]\<rparr>
   \<and> get_prop ''data'' (JObj [(''data'', JArr [])]) = Some (JArr [])
   \<and> handler_pricing Admitted (Parsed (JObj [(''data'', JArr [])]))
        = Responded \<lparr>status = 200, body = JArr []\<rparr>"
proof -
  have a: "get_prop ''data'' (JObj [(''status'', JNum 400)]) = None" by simp
  have b: "get_prop ''data'' (JObj [(''data'', JArr [JObj [(''price'', JNum 50)]])])
        = Some (JArr [JObj [(''price'', JNum 50)]])" by simp
  have c: "get_prop ''data'' (JObj [(''data'', JArr [])]) = Some (JArr [])" by simp
  show ?thesis
    using a b c
      envelope_presence_check [of "JObj [(''status'', JNum 400)]" "JNull" "[]"]
      envelope_presence_check [of "JObj [(''data'', JArr [JObj [(''price'', JNum 50)]])]"
        "JObj [(''price'', JNum 50)]" "[]"]
      envelope_presence_check [of "JObj [(''data'', JArr [])]" "JNull" "[]"]
    by simp
qed



subsection \<open>The refresh cycle\<close>

lemma fetchData_later_fails:
  "isl em \<or> isl pr \<or> isl dm \<Longrightarrow> fetchData clock (Inr mix) em pr dm s = s\<lparr>generationMix := mix\<rparr>"
  by (cases em; cases pr; cases dm) (simp_all add: fetchData_def Let_def)

lemma fetchData_success:
  "d \<noteq> JNull \<Longrightarrow>
   fetchData clock (Inr mix) (Inr e) (Inr p) (Inr (JObj [(''data'', d)])) s
     = s\<lparr>generationMix := mix, gridInfo := Some (gridInfo_of clock e p d)\<rparr>"
  by (cases d) (simp_all add: fetchData_def Let_def)

lemma same_but_time_refl: "same_but_time g g"
  by (cases g) (simp_all add: same_but_time_def)

lemma gridInfo_of_time: "same_but_time (Some (gridInfo_of t1 e p d)) (Some (gridInfo_of t2 e p d))"
  by (simp add: same_but_time_def gridInfo_of_def Let_def)

lemma fetchData_generationMix:
  "generationMix (fetchData clock mx em pr dm s)
     = (case mx of Inl e \<Rightarrow> generationMix s | Inr mix \<Rightarrow> mix)"
  by (cases mx; cases em; cases pr; cases dm)
     (auto simp add: fetchData_def Let_def split: json.splits option.splits)

lemma fetchData_gridInfo_frame:
  "gridInfo s = gridInfo s' \<Longrightarrow>
   same_but_time (gridInfo (fetchData t1 mx em pr dm s)) (gridInfo (fetchData t2 mx em pr dm s'))"
  by (cases mx; cases em; cases pr; cases dm)
     (auto simp add: fetchData_def Let_def same_but_time_refl gridInfo_of_time
       split: json.splits option.splits)

lemma fetchData_gridInfo_twice:
  "same_but_time (gridInfo (fetchData t1 mx em pr dm s))
     (gridInfo (fetchData t2 mx em pr dm (fetchData t1 mx em pr dm s)))"
  by (cases mx; cases em; cases pr; cases dm)
     (auto simp add: fetchData_def Let_def same_but_time_refl gridInfo_of_time
       split: json.splits option.splits)


lemma get_prop_record_json:
  "get_prop k (record_json r) = map_option JStr (map_of r k)"
  by (induction r) (auto simp add: record_json_def)

lemma record_json_not_null: "record_json r \<noteq> JNull"
  by (simp add: record_json_def)

lemma fetchData_record:
  "fetchData clock (Inr mix) (Inr e) (Inr p) (Inr (JObj [(''data'', record_json r)])) s
     = s\<lparr>generationMix := mix, gridInfo := Some (gridInfo_of clock e p (record_json r))\<rparr>"
  by (simp add: fetchData_success record_json_not_null)

lemma scenario_record_readings:
  "demand_of (record_json scenario_record) = Fin 32000"
  "transfers_of (record_json scenario_record) = Fin 1500"
  by (simp_all add: demand_of_def transfers_of_def flow_columns_def get_prop_record_json
      scenario_record_def parseFloat_def js_or_def parse_defs)





text \<open>
  Claim C1, as stated, fails: when only the pricing request fails, the cycle publishes no
  grid information at all (\<open>gridInfo\<close> stays \<^verbatim>\<open>null\<close>), while the same cycle with a
  successful pricing request publishes emissions 120, demand 32.00, generation 30.50 and
  transfers 1.50.
\<close>

theorem fault_isolation_counterexample:
  "gridInfo (fetchData ''14:05:00'' (Inr [])
      (Inr (JArr [JObj [(''intensity'', JObj [(''forecast'', JNum 120)])]]))
      (Inl ''Request failed with status code 500'')
      (Inr (JObj [(''data'', record_json scenario_record)]))
      \<lparr>generationMix = [], gridInfo = None\<rparr>) = None
   \<and> gridInfo (fetchData ''14:05:00'' (Inr [])
      (Inr (JArr [JObj [(''intensity'', JObj [(''forecast'', JNum 120)])]]))
      (Inr (JArr [JObj [(''price'', JNum 50)]]))
      (Inr (JObj [(''data'', record_json scenario_record)]))
      \<lparr>generationMix = [], gridInfo = None\<rparr>)
     = Some \<lparr>time = ''14:05:00'', price = JNum 50, emissions = JNum 120,
             demand = ''32.00'', generation = ''30.50'', transfers = ''1.50''\<rparr>"
proof -
  have "gridInfo_of ''14:05:00'' (JArr [JObj [(''intensity'', JObj [(''forecast'', JNum 120)])]])
          (JArr [JObj [(''price'', JNum 50)]]) (record_json scenario_record)
      = \<lparr>time = ''14:05:00'', price = JNum 50, emissions = JNum 120,
             demand = ''32.00'', generation = ''30.50'', transfers = ''1.50''\<rparr>"
    by (simp add: gridInfo_of_def scenario_record_readings opt_index0_def opt_prop_def
        or_else_def js_sub_def fixed_defs)
  then show ?thesis
    by (simp add: fetchData_record fetchData_later_fails)
qed

text \<open>
  Claim C1, amended. When any of the four requests fails, the cycle is abandoned there and
  does not throw: \<open>gridInfo\<close> keeps the value it had before the cycle, and \<open>generationMix\<close>
  is replaced by the new mix exactly when the mix request succeeded. Between requests that
  succeed, the pricing payload decides only the \<open>price\<close> field and the emissions payload
  only the \<open>emissions\<close> field.
\<close>

theorem fault_absorbed_whole_cycle:
  "(isl mx \<or> isl em \<or> isl pr \<or> isl dm
      \<longrightarrow> gridInfo (fetchData clock mx em pr dm s) = gridInfo s
          \<and> generationMix (fetchData clock mx em pr dm s)
              = (case mx of Inl e \<Rightarrow> generationMix s | Inr mix \<Rightarrow> mix))
   \<and> gridInfo_of clock e p' d = (gridInfo_of clock e p d)\<lparr>price := price (gridInfo_of clock e p' d)\<rparr>
   \<and> gridInfo_of clock e' p d
        = (gridInfo_of clock e p d)\<lparr>emissions := emissions (gridInfo_of clock e' p d)\<rparr>"
proof -
  have "gridInfo (fetchData clock mx em pr dm s) = gridInfo s"
    if "isl mx \<or> isl em \<or> isl pr \<or> isl dm"
    using that
    by (cases mx; cases em; cases pr; cases dm) (simp_all add: fetchData_def Let_def)
  then show ?thesis
    by (simp add: fetchData_generationMix gridInfo_of_def Let_def)
qed

theorem fault_absorbed_whole_cycle_witness:
  "isl (Inl ''Request failed with status code 500'' :: string + json)
   \<and> gridInfo (fetchData ''14:05:00''
        (Inr [\<lparr>fuel = ''wind'', carbonIntensityPercentage = Some 20,
               mix_generation = ''7.1'', mix_time = ''14:00''\<rparr>])
        (Inr (JArr []))
        (Inl ''Request failed with status code 500'')
        (Inr (JObj [(''data'', record_json scenario_record)]))
        \<lparr>generationMix = [], gridInfo = None\<rparr>) = None
   \<and> generationMix (fetchData ''14:05:00''
        (Inr [\<lparr>fuel = ''wind'', carbonIntensityPercentage = Some 20,
               mix_generation = ''7.1'', mix_time = ''14:00''\<rparr>])
        (Inr (JArr []))
        (Inl ''Request failed with status code 500'')
        (Inr (JObj [(''data'', record_json scenario_record)]))
        \<lparr>generationMix = [], gridInfo = None\<rparr>)
      = [\<lparr>fuel = ''wind'', carbonIntensityPercentage = Some 20,
          mix_generation = ''7.1'', mix_time = ''14:00''\<rparr>]"
  using fault_absorbed_whole_cycle [of
      "Inr [\<lparr>fuel = ''wind'', carbonIntensityPercentage = Some 20,
               mix_generation = ''7.1'', mix_time = ''14:00''\<rparr>]"
      "Inr (JArr [])" "Inl ''Request failed with status code 500''"
      "Inr (JObj [(''data'', record_json scenario_record)])"
      "''14:05:00''" "\<lparr>generationMix = [], gridInfo = None\<rparr>"]
  by simp

text \<open>
  Claim C9. For fixed outcomes of the four requests, two runs of the cycle from the same
  state, and a second run after a first one, give the same \<open>generationMix\<close> and values of
  \<open>gridInfo\<close> that agree in every field but \<open>time\<close>, whatever the two clock readings.
\<close>

theorem aggregation_deterministic:
  "same_but_time (gridInfo (fetchData t1 mx em pr dm s)) (gridInfo (fetchData t2 mx em pr dm s))
   \<and> generationMix (fetchData t1 mx em pr dm s) = generationMix (fetchData t2 mx em pr dm s)
   \<and> same_but_time (gridInfo (fetchData t1 mx em pr dm s))
        (gridInfo (fetchData t2 mx em pr dm (fetchData t1 mx em pr dm s)))
   \<and> generationMix (fetchData t1 mx em pr dm s)
        = generationMix (fetchData t2 mx em pr dm (fetchData t1 mx em pr dm s))"
  using fetchData_gridInfo_frame [of s s t1 mx em pr dm t2]
    fetchData_gridInfo_twice [of t1 mx em pr dm s t2]
  by (simp add: fetchData_generationMix split: sum.splits)

subsection \<open>Demand, transfers and generation\<close>







subsection \<open>The category sums\<close>

lemma parseFloat_zero: "parseFloat_string ''0'' = Fin 0"
  by (simp add: parse_defs)

lemma pie_value_share: "pie_value f = Fin (share f)"
  by (simp add: pie_value_def share_def parseFloat_zero split: option.splits)

lemma list_value_share: "list_value f = Fin (share f)"
  by (simp add: list_value_def share_def js_or_def split: option.splits)

lemma foldl_pie_value:
  "foldl (\<lambda>acc f. js_add acc (pie_value f)) (Fin a) xs = Fin (a + sum_list (map share xs))"
  by (induction xs arbitrary: a) (simp_all add: pie_value_share add.assoc)

lemma foldl_list_value:
  "foldl (\<lambda>acc f. js_add acc (list_value f)) (Fin a) xs = Fin (a + sum_list (map share xs))"
  by (induction xs arbitrary: a) (simp_all add: list_value_share add.assoc)


lemma renewables_sum: "renewables mix = Fin (category_sum Renewables mix)"
proof -
  have "filter (\<lambda>f. fuel f \<in> set [''wind'', ''solar'', ''hydro'']) mix
      = filter (\<lambda>f. spec_category (fuel f) = Renewables) mix"
    by (rule filter_cong) (simp_all add: spec_category_def)
  then have "renewables mix
      = Fin (0 + sum_list (map share (filter (\<lambda>f. spec_category (fuel f) = Renewables) mix)))"
    unfolding renewables_def by (simp only: foldl_pie_value)
  then show ?thesis
    by (simp add: category_sum_def sum_list_map_filter')
qed

lemma fossilFuels_sum: "fossilFuels mix = Fin (category_sum FossilFuels mix)"
proof -
  have "filter (\<lambda>f. fuel f \<in> set [''coal'', ''gas'', ''oil'']) mix
      = filter (\<lambda>f. spec_category (fuel f) = FossilFuels) mix"
    by (rule filter_cong) (simp_all add: spec_category_def)
  then have "fossilFuels mix
      = Fin (0 + sum_list (map share (filter (\<lambda>f. spec_category (fuel f) = FossilFuels) mix)))"
    unfolding fossilFuels_def by (simp only: foldl_pie_value)
  then show ?thesis
    by (simp add: category_sum_def sum_list_map_filter')
qed

lemma others_sum: "others mix = Fin (category_sum OtherSources mix)"
proof -
  have "filter (\<lambda>f. fuel f \<notin> set [''wind'', ''solar'', ''hydro'', ''coal'', ''gas'', ''oil'']) mix
      = filter (\<lambda>f. spec_category (fuel f) = OtherSources) mix"
    by (rule filter_cong) (simp_all add: spec_category_def)
  then have "others mix
      = Fin (0 + sum_list (map share (filter (\<lambda>f. spec_category (fuel f) = OtherSources) mix)))"
    unfolding others_def by (simp only: foldl_pie_value)
  then show ?thesis
    by (simp add: category_sum_def sum_list_map_filter')
qed



lemma toLowerCase_nine: "f \<in> set nine_fuels \<Longrightarrow> toLowerCase f = f"
  by (auto simp add: nine_fuels_def toLowerCase_def toLowerCase_char_def)

lemma FuelList_total_sum:
  "FuelList_total fuelTypes mix
     = toFixed2 (Fin (sum_list (map share
         (filter (\<lambda>source. toLowerCase (fuel source) \<in> set fuelTypes) mix))))"
  by (simp add: FuelList_total_def foldl_list_value)

lemma pie_sums_filter:
  "renewables mix = Fin (sum_list (map share (filter (\<lambda>f. fuel f \<in> set [''wind'', ''solar'', ''hydro'']) mix)))"
  "fossilFuels mix = Fin (sum_list (map share (filter (\<lambda>f. fuel f \<in> set [''coal'', ''gas'', ''oil'']) mix)))"
  "others mix = Fin (sum_list (map share
      (filter (\<lambda>f. fuel f \<notin> set [''wind'', ''solar'', ''hydro'', ''coal'', ''gas'', ''oil'']) mix)))"
  unfolding renewables_def fossilFuels_def others_def foldl_pie_value by simp_all

lemma Home_lists_agree:
  assumes "\<forall>f \<in> set mix. fuel f \<in> set nine_fuels"
  shows "Home_renewables mix = toFixed2 (renewables mix)"
    and "Home_fossil_fuels mix = toFixed2 (fossilFuels mix)"
    and "Home_other_sources mix = toFixed2 (others mix)"
proof -
  have low: "toLowerCase (fuel f) = fuel f" if "f \<in> set mix" for f
    using assms that toLowerCase_nine by blast
  have r: "filter (\<lambda>source. toLowerCase (fuel source) \<in> set [''wind'', ''solar'', ''hydro'']) mix
      = filter (\<lambda>f. fuel f \<in> set [''wind'', ''solar'', ''hydro'']) mix"
    by (rule filter_cong) (simp_all add: low)
  have f: "filter (\<lambda>source. toLowerCase (fuel source) \<in> set [''coal'', ''gas'']) mix
      = filter (\<lambda>f. fuel f \<in> set [''coal'', ''gas'', ''oil'']) mix"
  proof (rule filter_cong)
    fix x assume x: "x \<in> set mix"
    then have "fuel x \<in> set nine_fuels" using assms by blast
    then show "(toLowerCase (fuel x) \<in> set [''coal'', ''gas''])
        = (fuel x \<in> set [''coal'', ''gas'', ''oil''])"
      unfolding low [OF x] by (auto simp add: nine_fuels_def)
  qed simp
  have o: "filter (\<lambda>source. toLowerCase (fuel source)
               \<in> set [''nuclear'', ''biomass'', ''imports'', ''other'']) mix
      = filter (\<lambda>f. fuel f \<notin> set [''wind'', ''solar'', ''hydro'', ''coal'', ''gas'', ''oil'']) mix"
  proof (rule filter_cong)
    fix x assume x: "x \<in> set mix"
    then have "fuel x \<in> set nine_fuels" using assms by blast
    then show "(toLowerCase (fuel x) \<in> set [''nuclear'', ''biomass'', ''imports'', ''other''])
        = (fuel x \<notin> set [''wind'', ''solar'', ''hydro'', ''coal'', ''gas'', ''oil''])"
      unfolding low [OF x] by (auto simp add: nine_fuels_def)
  qed simp
  show "Home_renewables mix = toFixed2 (renewables mix)"
    unfolding Home_renewables_def FuelList_total_sum pie_sums_filter r ..
  show "Home_fossil_fuels mix = toFixed2 (fossilFuels mix)"
    unfolding Home_fossil_fuels_def FuelList_total_sum pie_sums_filter f ..
  show "Home_other_sources mix = toFixed2 (others mix)"
    unfolding Home_other_sources_def FuelList_total_sum pie_sums_filter o ..
qed

lemma scenario_pie:
  "aggregateData scenario_mix = [Fin 35, Fin 35, Fin 30]"
  by (simp add: aggregateData_def pie_sums_filter scenario_mix_def share_def)

lemma scenario_nine: "\<forall>f \<in> set scenario_mix. fuel f \<in> set nine_fuels"
  by (simp add: scenario_mix_def nine_fuels_def)

lemma toFixed2_scenario: "toFixed2 (Fin 35) = ''35.00''" "toFixed2 (Fin 30) = ''30.00''"
  by (simp_all add: fixed_defs)

text \<open>
  Claim C6, as stated, fails: for a mix that holds oil, the pie chart counts it under Fossil
  Fuels, while the page's three lists count it nowhere.
\<close>

theorem category_membership_counterexample:
  "fossilFuels [\<lparr>fuel = ''oil'', carbonIntensityPercentage = Some 5\<rparr>] = Fin 5
   \<and> Home_fossil_fuels [\<lparr>fuel = ''oil'', carbonIntensityPercentage = Some 5\<rparr>] = ''0.00''
   \<and> Home_renewables [\<lparr>fuel = ''oil'', carbonIntensityPercentage = Some 5\<rparr>] = ''0.00''
   \<and> Home_other_sources [\<lparr>fuel = ''oil'', carbonIntensityPercentage = Some 5\<rparr>] = ''0.00''"
  by (simp add: pie_sums_filter share_def Home_fossil_fuels_def Home_renewables_def
      Home_other_sources_def FuelList_total_sum toLowerCase_def toLowerCase_char_def fixed_defs)

text \<open>
  Claim C6, amended. The pie chart groups every mix as the specification says. The page's
  three lists give the same three sums, shown with two decimals, for every mix made of the
  nine fuels their membership lists name (coal, gas; wind, solar, hydro; nuclear, biomass,
  imports, other). On the scenario's mix both give 35, 35 and 30.
\<close>

theorem category_membership:
  "renewables mix = Fin (category_sum Renewables mix)
   \<and> fossilFuels mix = Fin (category_sum FossilFuels mix)
   \<and> others mix = Fin (category_sum OtherSources mix)
   \<and> (set (map fuel mix) \<subseteq> set nine_fuels
        \<longrightarrow> Home_renewables mix = toFixed2 (renewables mix)
          \<and> Home_fossil_fuels mix = toFixed2 (fossilFuels mix)
          \<and> Home_other_sources mix = toFixed2 (others mix))
   \<and> aggregateData scenario_mix = [Fin 35, Fin 35, Fin 30]
   \<and> Home_renewables scenario_mix = ''35.00''
   \<and> Home_fossil_fuels scenario_mix = ''35.00''
   \<and> Home_other_sources scenario_mix = ''30.00''"
proof -
  have "Home_renewables scenario_mix = ''35.00''" "Home_fossil_fuels scenario_mix = ''35.00''"
    "Home_other_sources scenario_mix = ''30.00''"
    using Home_lists_agree [OF scenario_nine] scenario_pie
    by (simp_all add: aggregateData_def toFixed2_scenario)
  moreover have "\<forall>f \<in> set mix. fuel f \<in> set nine_fuels"
    if "set (map fuel mix) \<subseteq> set nine_fuels"
    using that by auto
  ultimately show ?thesis
    using Home_lists_agree [of mix]
    by (simp add: renewables_sum fossilFuels_sum others_sum scenario_pie)
qed

theorem category_membership_witness:
  "set (map fuel scenario_mix) \<subseteq> set nine_fuels
   \<and> Home_renewables scenario_mix = toFixed2 (renewables scenario_mix)
   \<and> Home_fossil_fuels scenario_mix = toFixed2 (fossilFuels scenario_mix)
   \<and> Home_other_sources scenario_mix = toFixed2 (others scenario_mix)
   \<and> aggregateData scenario_mix = [Fin 35, Fin 35, Fin 30]"
proof -
  have "set (map fuel scenario_mix) \<subseteq> set nine_fuels"
    using scenario_nine by auto
  then show ?thesis
    using category_membership [of scenario_mix] by blast
qed

end
